theory Spec2Isabelle
  imports Complex_Main
begin

section \<open>Data model (models.py)\<close>

text \<open>
  Conventions of the embedding.
  \<^item> A Python \<^verbatim>\<open>datetime\<close> is an \<open>int\<close>: microseconds on the naive local time line, the
    resolution of \<^verbatim>\<open>datetime\<close> and \<^verbatim>\<open>timedelta\<close>. \<^verbatim>\<open>timedelta(hours=h)\<close> and
    \<^verbatim>\<open>timedelta(days=d)\<close> are \<open>hours h\<close> and \<open>days d\<close>.
  \<^item> A Python \<^verbatim>\<open>float\<close> price or percentage is a \<open>real\<close>; rounding of the binary
    floating-point operations is not modelled.
  \<^item> \<^verbatim>\<open>Optional[T]\<close> is \<open>T option\<close>. Python's truth test of an optional float
    (\<^verbatim>\<open>if x:\<close>, \<^verbatim>\<open>x or y\<close>, \<^verbatim>\<open>x and y\<close>) is \<open>truthy\<close>: \<^verbatim>\<open>None\<close> and \<^verbatim>\<open>0.0\<close> are false.
  \<^item> Every \<^verbatim>\<open>datetime.now()\<close> the code executes is an input of the model.
\<close>

type_synonym datetime = int

definition hours :: "int \<Rightarrow> int" where
  "hours h = h * 3600000000"

definition days :: "int \<Rightarrow> int" where
  "days d = d * 86400000000"

definition truthy :: "real option \<Rightarrow> bool" where
  "truthy v = (case v of None \<Rightarrow> False | Some x \<Rightarrow> x \<noteq> 0)"

definition truthy_str :: "string option \<Rightarrow> bool" where
  "truthy_str v = (case v of None \<Rightarrow> False | Some s \<Rightarrow> s \<noteq> [])"

record Card =
  name :: string
  card_set :: string
  rarity :: string
  condition :: string
  language :: string
  number :: "string option"
  target_price :: "real option"
  enabled :: bool

text \<open>\<^verbatim>\<open>p.replace(" ", "_")\<close>\<close>

definition replace_spaces :: "string \<Rightarrow> string" where
  "replace_spaces p = map (\<lambda>c. if c = CHR '' '' then CHR ''_'' else c) p"

text \<open>\<^verbatim>\<open>sep.join(parts)\<close>\<close>

fun join :: "string \<Rightarrow> string list \<Rightarrow> string" where
  "join sep [] = []"
| "join sep [p] = p"
| "join sep (p # q # ps) = p @ sep @ join sep (q # ps)"

text \<open>\<^verbatim>\<open>parts.insert(2, self.number)\<close> on the four-element list.\<close>

definition get_identifier :: "Card \<Rightarrow> string" where
  "get_identifier c =
     (let parts = [name c, card_set c, rarity c, language c];
          parts' = (if truthy_str (number c)
                    then take 2 parts @ [the (number c)] @ drop 2 parts
                    else parts)
      in join ''_'' (map replace_spaces parts'))"

record PriceData =
  card_id :: string
  timestamp :: datetime
  market_price :: "real option"
  lowest_price :: "real option"
  listing_count :: int
  tcgplayer_url :: "string option"

text \<open>\<^verbatim>\<open>return self.market_price or self.lowest_price\<close>\<close>

definition get_effective_price :: "PriceData \<Rightarrow> real option" where
  "get_effective_price pd =
     (if truthy (market_price pd) then market_price pd else lowest_price pd)"

record AlertThresholds =
  price_drop_percent :: real
  drop_timeframe_hours :: int
  low_inventory_threshold :: int
  spike_ignore_percent :: real
  spike_ignore_hours :: int

section \<open>Price history store (price\_tracker.py)\<close>

text \<open>
  One record of the persisted JSON list. A field that the code reads with
  \<^verbatim>\<open>item['k']\<close> is \<open>None\<close> when that read raises: the key is absent or, for the
  timestamp, \<^verbatim>\<open>datetime.fromisoformat\<close> rejects the value. A field read with
  \<^verbatim>\<open>item.get('k')\<close> is \<open>None\<close> when the key is absent or null.
\<close>

record json_entry =
  j_card_id :: "string option"
  j_timestamp :: "datetime option"
  j_market_price :: "real option"
  j_lowest_price :: "real option"
  j_listing_count :: "int option"
  j_tcgplayer_url :: "string option"

text \<open>
  A history file that exists either makes \<^verbatim>\<open>open\<close>/\<^verbatim>\<open>json.load\<close> raise (or holds
  something other than a list), or holds a list of records. The disk maps a card
  identifier to its history file; an absent file is \<open>None\<close>.
\<close>

datatype history_file = Corrupt | Entries "json_entry list"

type_synonym disk = "string \<rightharpoonup> history_file"

record PriceTracker =
  price_history :: "string \<rightharpoonup> PriceData list"

text \<open>The body of the \<^verbatim>\<open>for item in data\<close> loop of \<^verbatim>\<open>load_history\<close>; \<open>None\<close> when it raises.\<close>

definition parse_entry :: "json_entry \<Rightarrow> PriceData option" where
  "parse_entry item =
     (case j_card_id item of
        None \<Rightarrow> None
      | Some cid \<Rightarrow>
          (case j_timestamp item of
             None \<Rightarrow> None
           | Some ts \<Rightarrow>
               Some \<lparr>card_id = cid, timestamp = ts,
                     market_price = j_market_price item,
                     lowest_price = j_lowest_price item,
                     listing_count = (case j_listing_count item of None \<Rightarrow> 0 | Some n \<Rightarrow> n),
                     tcgplayer_url = j_tcgplayer_url item\<rparr>))"

text \<open>The loop itself: the first record that raises aborts it.\<close>

fun parse_all :: "json_entry list \<Rightarrow> PriceData list option" where
  "parse_all [] = Some []"
| "parse_all (item # items) =
     (case parse_entry item of
        None \<Rightarrow> None
      | Some pd \<Rightarrow> (case parse_all items of None \<Rightarrow> None | Some pds \<Rightarrow> Some (pd # pds)))"

text \<open>
  \<^verbatim>\<open>history.sort(key=lambda x: x.timestamp, reverse=True)\<close>: descending and stable
  (records with equal timestamps keep their order).
\<close>

definition sort_newest_first :: "PriceData list \<Rightarrow> PriceData list" where
  "sort_newest_first history = sort_key (\<lambda>x. - timestamp x) history"

text \<open>
  \<^verbatim>\<open>load_history\<close>: returns the list and the tracker, whose cache is written only when
  the whole \<^verbatim>\<open>try\<close> block ran through. Every exception ends in \<^verbatim>\<open>return []\<close>.
\<close>

definition load_history :: "disk \<Rightarrow> PriceTracker \<Rightarrow> Card \<Rightarrow> PriceData list \<times> PriceTracker" where
  "load_history dsk tr crd =
     (let cid = get_identifier crd in
      case dsk cid of
        None \<Rightarrow> ([], tr)
      | Some Corrupt \<Rightarrow> ([], tr)
      | Some (Entries data) \<Rightarrow>
          (case parse_all data of
             None \<Rightarrow> ([], tr)
           | Some parsed \<Rightarrow>
               (let history = sort_newest_first parsed
                in (history, tr\<lparr>price_history := (price_history tr)(cid \<mapsto> history)\<rparr>))))"

definition new_entry :: "PriceData \<Rightarrow> json_entry" where
  "new_entry pd =
     \<lparr>j_card_id = Some (card_id pd), j_timestamp = Some (timestamp pd),
      j_market_price = market_price pd, j_lowest_price = lowest_price pd,
      j_listing_count = Some (listing_count pd), j_tcgplayer_url = tcgplayer_url pd\<rparr>"

text \<open>
  The retention filter
  \<^verbatim>\<open>[entry for entry in data if datetime.fromisoformat(entry['timestamp']) > cutoff_date]\<close>;
  \<open>None\<close> when reading a timestamp raises.
\<close>

fun retain :: "datetime \<Rightarrow> json_entry list \<Rightarrow> json_entry list option" where
  "retain cutoff_date [] = Some []"
| "retain cutoff_date (entry # data) =
     (case j_timestamp entry of
        None \<Rightarrow> None
      | Some ts \<Rightarrow>
          (case retain cutoff_date data of
             None \<Rightarrow> None
           | Some kept \<Rightarrow> Some (if ts > cutoff_date then entry # kept else kept)))"

text \<open>
  The outcome of \<^verbatim>\<open>open(history_file, 'w')\<close> and \<^verbatim>\<open>json.dump\<close>, given by the
  environment: the file is written, or an exception is raised and the file is left in
  the state carried by \<open>WriteFailed\<close> (untouched, truncated or absent).
\<close>

datatype write_result = Written | WriteFailed "history_file option"

text \<open>
  The read at the head of \<^verbatim>\<open>save_price_data\<close>: \<^verbatim>\<open>json.load\<close> of an existing file,
  \<^verbatim>\<open>[]\<close> for an absent one; \<open>None\<close> when it raises.
\<close>

definition read_data :: "disk \<Rightarrow> string \<Rightarrow> json_entry list option" where
  "read_data dsk cid =
     (case dsk cid of
        None \<Rightarrow> Some []
      | Some Corrupt \<Rightarrow> None
      | Some (Entries data) \<Rightarrow> Some data)"

text \<open>
  \<^verbatim>\<open>save_price_data\<close>. The whole body is inside \<^verbatim>\<open>try\<close>, and the handler only
  logs, so the function returns normally on every path; the cache update is the last
  statement of the \<^verbatim>\<open>try\<close> block, after the write.
\<close>

definition save_price_data ::
    "write_result \<Rightarrow> datetime \<Rightarrow> disk \<Rightarrow> PriceTracker \<Rightarrow> PriceData \<Rightarrow> disk \<times> PriceTracker" where
  "save_price_data wr now dsk tr price_data =
     (let cid = card_id price_data in
      case read_data dsk cid of
        None \<Rightarrow> (dsk, tr)
      | Some data \<Rightarrow>
          (let data1 = data @ [new_entry price_data];
               cutoff_date = now - days 90
           in case retain cutoff_date data1 of
                None \<Rightarrow> (dsk, tr)
              | Some data2 \<Rightarrow>
                  (case wr of
                     WriteFailed left \<Rightarrow> (dsk(cid := left), tr)
                   | Written \<Rightarrow>
                       (dsk(cid \<mapsto> Entries data2),
                        tr\<lparr>price_history := (price_history tr)
                             (cid \<mapsto> price_data #
                                (case price_history tr cid of None \<Rightarrow> [] | Some h \<Rightarrow> h))\<rparr>))))"

definition get_latest_price ::
    "disk \<Rightarrow> PriceTracker \<Rightarrow> Card \<Rightarrow> PriceData option \<times> PriceTracker" where
  "get_latest_price dsk tr crd =
     (let cid = get_identifier crd in
      case price_history tr cid of
        Some (x # xs) \<Rightarrow> (Some x, tr)
      | _ \<Rightarrow>
          (let (history, tr') = load_history dsk tr crd
           in (case history of [] \<Rightarrow> None | x # xs \<Rightarrow> Some x, tr')))"

text \<open>
  \<^verbatim>\<open>min(history, key=k)\<close> on a non-empty list: one pass that replaces the candidate only
  by a strictly smaller key, so the first minimal element is returned.
\<close>

fun min_key :: "('a \<Rightarrow> int) \<Rightarrow> 'a \<Rightarrow> 'a list \<Rightarrow> 'a" where
  "min_key k best [] = best"
| "min_key k best (x # xs) = min_key k (if k x < k best then x else best) xs"

definition get_price_at_timeframe ::
    "datetime \<Rightarrow> disk \<Rightarrow> PriceTracker \<Rightarrow> Card \<Rightarrow> int \<Rightarrow> PriceData option \<times> PriceTracker" where
  "get_price_at_timeframe now dsk tr crd hours_ago =
     (let cid = get_identifier crd;
          tr1 = (if price_history tr cid = None then snd (load_history dsk tr crd) else tr)
      in case price_history tr1 cid of
           None \<Rightarrow> (None, tr1)
         | Some [] \<Rightarrow> (None, tr1)
         | Some (h # hs) \<Rightarrow>
             (let target_time = now - hours hours_ago
              in (Some (min_key (\<lambda>x. \<bar>timestamp x - target_time\<bar>) h hs), tr1)))"

definition get_30_day_low ::
    "datetime \<Rightarrow> disk \<Rightarrow> PriceTracker \<Rightarrow> Card \<Rightarrow> real option \<times> PriceTracker" where
  "get_30_day_low now dsk tr crd =
     (let cid = get_identifier crd;
          tr1 = (if price_history tr cid = None then snd (load_history dsk tr crd) else tr)
      in case price_history tr1 cid of
           None \<Rightarrow> (None, tr1)
         | Some [] \<Rightarrow> (None, tr1)
         | Some history \<Rightarrow>
             (let cutoff_date = now - days 30;
                  recent_prices =
                    map (\<lambda>pd. the (get_effective_price pd))
                      (filter (\<lambda>pd. timestamp pd > cutoff_date \<and> get_effective_price pd \<noteq> None)
                         history)
              in (if recent_prices = [] then None else Some (min_list recent_prices), tr1)))"

section \<open>Alert evaluation (alert\_system.py)\<close>

text \<open>
  The reasons are f-strings in the source; each constructor stands for one message and
  carries the values the message interpolates, in the order they appear in it.
\<close>

datatype reason =
    TargetReached real real
  | PriceDropped real real real int
  | ThirtyDayLow real real
  | LowInventory int

record PriceAlert =
  alert_card :: Card
  current_price :: PriceData
  previous_price :: "PriceData option"
  alert_reasons :: "reason list"
  alert_timestamp :: datetime

record AlertSystem =
  price_tracker :: PriceTracker
  thresholds :: AlertThresholds
  last_alert_times :: "string \<rightharpoonup> datetime"

text \<open>
  The values of the \<^verbatim>\<open>datetime.now()\<close> calls that one run of
  \<^verbatim>\<open>check_alert_conditions\<close> can make, in program order: the cooldown test, the
  percent-drop lookup, the 30-day low, the spike lookup, the default timestamp of the
  \<^verbatim>\<open>PriceAlert\<close>, and the new entry of \<^verbatim>\<open>last_alert_times\<close>.
\<close>

record clock =
  now_cooldown :: datetime
  now_drop :: datetime
  now_low :: datetime
  now_spike :: datetime
  now_alert :: datetime
  now_stamp :: datetime

definition is_price_spike ::
    "datetime \<Rightarrow> disk \<Rightarrow> AlertThresholds \<Rightarrow> PriceTracker \<Rightarrow> Card \<Rightarrow> PriceData
       \<Rightarrow> bool \<times> PriceTracker" where
  "is_price_spike now dsk th tr crd cur =
     (let current = get_effective_price cur in
      if \<not> truthy current then (False, tr)
      else
        (let (past_price_data, tr1) = get_price_at_timeframe now dsk tr crd (spike_ignore_hours th)
         in case past_price_data of
              None \<Rightarrow> (False, tr1)
            | Some ppd \<Rightarrow>
                (let past_price = get_effective_price ppd in
                 if \<not> truthy past_price \<or> past_price = Some 0 then (False, tr1)
                 else
                   (let spike_percent =
                          ((the current - the past_price) / the past_price) * 100
                    in if spike_percent \<ge> spike_ignore_percent th then (True, tr1)
                       else (False, tr1)))))"

text \<open>The cooldown test at the head of \<^verbatim>\<open>check_alert_conditions\<close>.\<close>

definition cooldown_active :: "AlertSystem \<Rightarrow> Card \<Rightarrow> datetime \<Rightarrow> int \<Rightarrow> bool" where
  "cooldown_active st crd now cooldown_hours =
     (case last_alert_times st (get_identifier crd) of
        None \<Rightarrow> False
      | Some last_time \<Rightarrow> now - last_time < hours cooldown_hours)"

text \<open>Everything after the cooldown test.\<close>

definition evaluate_rules ::
    "clock \<Rightarrow> disk \<Rightarrow> AlertSystem \<Rightarrow> Card \<Rightarrow> PriceData \<Rightarrow> PriceAlert option \<times> AlertSystem" where
  "evaluate_rules clk dsk st crd cur =
     (case get_effective_price cur of
        None \<Rightarrow> (None, st)
      | Some current \<Rightarrow>
          (let th = thresholds st;
               check1 = (if truthy (target_price crd) \<and> current \<le> the (target_price crd)
                         then [TargetReached current (the (target_price crd))] else []);
               (past_price_data, tr1) =
                  get_price_at_timeframe (now_drop clk) dsk (price_tracker st) crd
                    (drop_timeframe_hours th);
               check2 =
                 (case past_price_data of
                    None \<Rightarrow> []
                  | Some ppd \<Rightarrow>
                      (let past_price = get_effective_price ppd in
                       if truthy past_price then
                         (let drop_percent = ((the past_price - current) / the past_price) * 100
                          in if drop_percent \<ge> price_drop_percent th
                             then [PriceDropped drop_percent (the past_price) current
                                     (drop_timeframe_hours th)]
                             else [])
                       else []));
               (thirty_day_low, tr2) = get_30_day_low (now_low clk) dsk tr1 crd;
               check3 = (if truthy thirty_day_low \<and> current \<le> the thirty_day_low
                         then [ThirtyDayLow current (the thirty_day_low)] else []);
               check4 = (if listing_count cur > 0
                            \<and> listing_count cur \<le> low_inventory_threshold th
                         then [LowInventory (listing_count cur)] else []);
               reasons = check1 @ check2 @ check3 @ check4;
               (spike, tr3) = is_price_spike (now_spike clk) dsk th tr2 crd cur
           in if spike then (None, st\<lparr>price_tracker := tr3\<rparr>)
              else if reasons \<noteq> [] then
                (let (latest, tr4) = get_latest_price dsk tr3 crd;
                     alert = \<lparr>alert_card = crd, current_price = cur,
                              previous_price = (if latest \<noteq> Some cur then latest else None),
                              alert_reasons = reasons,
                              alert_timestamp = now_alert clk\<rparr>
                 in (Some alert,
                     st\<lparr>price_tracker := tr4,
                        last_alert_times :=
                          (last_alert_times st)(get_identifier crd \<mapsto> now_stamp clk)\<rparr>))
              else (None, st\<lparr>price_tracker := tr3\<rparr>)))"

definition check_alert_conditions ::
    "clock \<Rightarrow> disk \<Rightarrow> AlertSystem \<Rightarrow> Card \<Rightarrow> PriceData \<Rightarrow> int
       \<Rightarrow> PriceAlert option \<times> AlertSystem" where
  "check_alert_conditions clk dsk st crd cur cooldown_hours =
     (if cooldown_active st crd (now_cooldown clk) cooldown_hours then (None, st)
      else evaluate_rules clk dsk st crd cur)"

section \<open>Auxiliary notions\<close>

text \<open>
  The tracker after the step that opens three of its queries:
  \<^verbatim>\<open>if card_id not in self.price_history: self.load_history(card)\<close>.
\<close>

definition hydrate :: "disk \<Rightarrow> PriceTracker \<Rightarrow> Card \<Rightarrow> PriceTracker" where
  "hydrate dsk tr crd =
     (if price_history tr (get_identifier crd) = None then snd (load_history dsk tr crd) else tr)"

text \<open>Index \<open>i\<close> is the first position of \<open>ys\<close> at which the key \<open>k\<close> is minimal.\<close>

definition first_min :: "('a \<Rightarrow> int) \<Rightarrow> 'a list \<Rightarrow> nat \<Rightarrow> bool" where
  "first_min k ys i \<longleftrightarrow>
     i < length ys \<and> (\<forall>j<length ys. k (ys ! i) \<le> k (ys ! j)) \<and> (\<forall>j<i. k (ys ! i) < k (ys ! j))"

text \<open>
  The reason list that \<^verbatim>\<open>check_alert_conditions\<close> builds in its four checks, as a
  function of the current effective price and of what the store answered: the observation
  nearest to the drop window and the 30-day low.
\<close>

definition check_reasons ::
    "AlertThresholds \<Rightarrow> Card \<Rightarrow> PriceData \<Rightarrow> real \<Rightarrow> PriceData option \<Rightarrow> real option
       \<Rightarrow> reason list" where
  "check_reasons th crd cur current past_price_data thirty_day_low =
     (if truthy (target_price crd) \<and> current \<le> the (target_price crd)
      then [TargetReached current (the (target_price crd))] else []) @
     (case past_price_data of
        None \<Rightarrow> []
      | Some ppd \<Rightarrow>
          (let past_price = get_effective_price ppd in
           if truthy past_price then
             (let drop_percent = ((the past_price - current) / the past_price) * 100
              in if drop_percent \<ge> price_drop_percent th
                 then [PriceDropped drop_percent (the past_price) current
                         (drop_timeframe_hours th)]
                 else [])
           else [])) @
     (if truthy thirty_day_low \<and> current \<le> the thirty_day_low
      then [ThirtyDayLow current (the thirty_day_low)] else []) @
     (if listing_count cur > 0 \<and> listing_count cur \<le> low_inventory_threshold th
      then [LowInventory (listing_count cur)] else [])"

subsection \<open>Sample data\<close>

text \<open>The defaults of the \<^verbatim>\<open>AlertThresholds\<close> dataclass.\<close>

definition default_thresholds :: AlertThresholds where
  "default_thresholds =
     \<lparr>price_drop_percent = 15, drop_timeframe_hours = 24, low_inventory_threshold = 5,
      spike_ignore_percent = 30, spike_ignore_hours = 6\<rparr>"

definition sample_card :: Card where
  "sample_card =
     \<lparr>name = ''A'', card_set = ''B'', rarity = ''C'', condition = ''Near Mint'',
      language = ''E'', number = None, target_price = Some 5, enabled = True\<rparr>"

text \<open>An observation of the sample card: time, market price, lowest price, listings.\<close>

definition obs :: "datetime \<Rightarrow> real option \<Rightarrow> real option \<Rightarrow> int \<Rightarrow> PriceData" where
  "obs t m l n =
     \<lparr>card_id = ''A_B_C_E'', timestamp = t, market_price = m, lowest_price = l,
      listing_count = n, tcgplayer_url = None\<rparr>"

text \<open>An evaluator that has not alerted yet, over a tracker whose cache holds \<open>hist\<close>.\<close>

definition fresh_system :: "PriceData list \<Rightarrow> AlertThresholds \<Rightarrow> AlertSystem" where
  "fresh_system hist th =
     \<lparr>price_tracker = \<lparr>price_history = [''A_B_C_E'' \<mapsto> hist]\<rparr>,
      thresholds = th, last_alert_times = Map.empty\<rparr>"

text \<open>A clock that stands still at \<open>t\<close> during one evaluation.\<close>

definition clock_at :: "datetime \<Rightarrow> clock" where
  "clock_at t =
     \<lparr>now_cooldown = t, now_drop = t, now_low = t, now_spike = t, now_alert = t, now_stamp = t\<rparr>"

section \<open>Properties of the data model\<close>

lemma sample_card_identifier: "get_identifier sample_card = ''A_B_C_E''"
  by (simp add: get_identifier_def sample_card_def truthy_str_def replace_spaces_def)

text \<open>
  Claim C5, as the code has it. The identity key joins, with underscores, the name, the
  set, the rarity and the language, each with its spaces replaced by underscores. A
  serial number that is present and not the empty string appears in the key immediately
  after the set component, before the rarity; an empty serial number is left out.
\<close>

theorem C5_identifier_key:
  "get_identifier c =
     (case number c of
        None \<Rightarrow>
          replace_spaces (name c) @ ''_'' @ replace_spaces (card_set c) @ ''_'' @
          replace_spaces (rarity c) @ ''_'' @ replace_spaces (language c)
      | Some n \<Rightarrow>
          if n = [] then
            replace_spaces (name c) @ ''_'' @ replace_spaces (card_set c) @ ''_'' @
            replace_spaces (rarity c) @ ''_'' @ replace_spaces (language c)
          else
            replace_spaces (name c) @ ''_'' @ replace_spaces (card_set c) @ ''_'' @
            replace_spaces n @ ''_'' @
            replace_spaces (rarity c) @ ''_'' @ replace_spaces (language c))"
  by (simp add: get_identifier_def truthy_str_def split: option.splits)

text \<open>A card with a serial number, and spaces in two of its components.\<close>

theorem C5_identifier_key_witness:
  "get_identifier (sample_card\<lparr>name := ''Monkey D Luffy'', number := Some ''OP01 001''\<rparr>)
     = ''Monkey_D_Luffy_B_OP01_001_C_E''"
  using C5_identifier_key [of "sample_card\<lparr>name := ''Monkey D Luffy'', number := Some ''OP01 001''\<rparr>"]
  by (simp add: sample_card_def replace_spaces_def)

text \<open>
  The key of a card with serial number \<open>N\<close> is not the join in which the serial number
  follows the rarity.
\<close>

theorem C5_serial_after_rarity_counterexample:
  "get_identifier (sample_card\<lparr>number := Some ''N''\<rparr>) = ''A_B_N_C_E'' \<and>
   get_identifier (sample_card\<lparr>number := Some ''N''\<rparr>) \<noteq>
     join ''_'' (map replace_spaces
       [name sample_card, card_set sample_card, rarity sample_card, ''N'', language sample_card])"
  by (simp add: get_identifier_def truthy_str_def sample_card_def replace_spaces_def)

text \<open>
  Claim C6, as the code has it. The effective price of an observation is its market
  price when that is present and not zero; otherwise it is the lowest-listing price,
  which may itself be absent. A market price of zero is passed over like an absent one.
\<close>

theorem C6_effective_price:
  "get_effective_price pd =
     (case market_price pd of
        None \<Rightarrow> lowest_price pd
      | Some m \<Rightarrow> if m = 0 then lowest_price pd else Some m)"
  by (simp add: get_effective_price_def truthy_def split: option.splits)

text \<open>Market price preferred, lowest price as fallback, and neither usable.\<close>

theorem C6_effective_price_witness:
  "get_effective_price (obs 0 (Some 45) (Some 40) 3) = Some 45 \<and>
   get_effective_price (obs 0 None (Some 40) 3) = Some 40 \<and>
   get_effective_price (obs 0 (Some 0) None 3) = None"
  using C6_effective_price [of "obs 0 (Some 45) (Some 40) 3"]
    C6_effective_price [of "obs 0 None (Some 40) 3"]
    C6_effective_price [of "obs 0 (Some 0) None 3"]
  by (simp add: obs_def)

text \<open>A market price of zero is present, yet the effective price is the lowest price.\<close>

theorem C6_zero_market_price_counterexample:
  "market_price (obs 0 (Some 0) (Some 5) 3) = Some 0 \<and>
   get_effective_price (obs 0 (Some 0) (Some 5) 3) = Some 5 \<and>
   get_effective_price (obs 0 (Some 0) (Some 5) 3) \<noteq> market_price (obs 0 (Some 0) (Some 5) 3)"
  by (simp add: get_effective_price_def truthy_def obs_def)

section \<open>Properties of the price history store\<close>

subsection \<open>Loading\<close>

lemma parse_all_None_iff:
  "parse_all data = None \<longleftrightarrow> (\<exists>item\<in>set data. parse_entry item = None)"
  by (induction data) (auto split: option.splits)

lemma parse_all_well_formed:
  "\<forall>item\<in>set data. parse_entry item \<noteq> None \<Longrightarrow>
     parse_all data = Some (map (the \<circ> parse_entry) data)"
  by (induction data) auto

lemma parse_entry_new_entry: "parse_entry (new_entry pd) = Some pd"
  by (simp add: parse_entry_def new_entry_def)

lemma load_history_cases:
  "load_history dsk tr crd = ([], tr) \<or>
   (\<exists>h. load_history dsk tr crd =
      (h, tr\<lparr>price_history := (price_history tr)(get_identifier crd \<mapsto> h)\<rparr>))"
  by (auto simp: load_history_def Let_def split: option.splits history_file.splits)

lemma load_history_fst_indep:
  "fst (load_history dsk tr' crd) = fst (load_history dsk tr crd)"
  by (auto simp: load_history_def Let_def split: option.splits history_file.splits)

text \<open>
  Claim C3, as the code has it. The loop over the records runs inside the single
  \<^verbatim>\<open>try\<close> block of \<^verbatim>\<open>load_history\<close>. When every record of a readable history is
  well-formed, load returns all of them, newest first, and caches them. When at least one
  record is malformed (no \<^verbatim>\<open>card_id\<close>, no \<^verbatim>\<open>timestamp\<close>, or a timestamp that does not
  parse), the whole load returns the empty sequence and the cache is left as it was.
\<close>

theorem C3_load_all_or_nothing:
  assumes "dsk (get_identifier crd) = Some (Entries data)"
  shows "load_history dsk tr crd =
           (if \<exists>item\<in>set data. parse_entry item = None then ([], tr)
            else (sort_newest_first (map (the \<circ> parse_entry) data),
                  tr\<lparr>price_history := (price_history tr)
                       (get_identifier crd \<mapsto>
                          sort_newest_first (map (the \<circ> parse_entry) data))\<rparr>))"
proof (cases "\<exists>item\<in>set data. parse_entry item = None")
  case True
  then have "parse_all data = None" by (simp add: parse_all_None_iff)
  with True assms show ?thesis by (simp add: load_history_def)
next
  case False
  then have "parse_all data = Some (map (the \<circ> parse_entry) data)"
    by (simp add: parse_all_well_formed)
  with False assms show ?thesis by (auto simp: load_history_def Let_def)
qed

text \<open>
  Two well-formed records, stored oldest first, are loaded newest first and cached.
\<close>

theorem C3_load_all_or_nothing_witness:
  "load_history [''A_B_C_E'' \<mapsto> Entries [new_entry (obs 1 (Some 4) None 2),
                                            new_entry (obs 2 (Some 3) None 2)]]
     \<lparr>price_history = Map.empty\<rparr> sample_card
   = ([obs 2 (Some 3) None 2, obs 1 (Some 4) None 2],
      \<lparr>price_history = [''A_B_C_E'' \<mapsto> [obs 2 (Some 3) None 2, obs 1 (Some 4) None 2]]\<rparr>)"
  using C3_load_all_or_nothing
    [of "[''A_B_C_E'' \<mapsto> Entries [new_entry (obs 1 (Some 4) None 2),
                                      new_entry (obs 2 (Some 3) None 2)]]"
        sample_card
        "[new_entry (obs 1 (Some 4) None 2), new_entry (obs 2 (Some 3) None 2)]"
        "\<lparr>price_history = Map.empty\<rparr>"]
  by (simp add: parse_entry_new_entry sort_newest_first_def sample_card_identifier obs_def)

text \<open>
  A history of one well-formed record and one record without a timestamp loads as the
  empty sequence: the well-formed record is lost with the malformed one.
\<close>

theorem C3_one_bad_record_empties_load_counterexample:
  "parse_entry (new_entry (obs 1 (Some 4) None 2)) = Some (obs 1 (Some 4) None 2) \<and>
   parse_entry ((new_entry (obs 2 (Some 3) None 2))\<lparr>j_timestamp := None\<rparr>) = None \<and>
   fst (load_history
          [''A_B_C_E'' \<mapsto> Entries [new_entry (obs 1 (Some 4) None 2),
                                     (new_entry (obs 2 (Some 3) None 2))\<lparr>j_timestamp := None\<rparr>]]
          \<lparr>price_history = Map.empty\<rparr> sample_card) = []"
  by (simp add: load_history_def sample_card_identifier parse_entry_def new_entry_def obs_def)

subsection \<open>Saving\<close>

lemma retain_well_formed:
  "\<forall>entry\<in>set data. j_timestamp entry \<noteq> None \<Longrightarrow>
     retain cutoff data = Some (filter (\<lambda>entry. the (j_timestamp entry) > cutoff) data)"
  by (induction data) auto

text \<open>
  Claim C4, as the code has it. \<^verbatim>\<open>save_price_data\<close> never raises (the model is a total
  function: every exception is caught and logged). When writing the persisted log fails,
  the in-memory cache is left exactly as it was, so the new observation is not prepended;
  the cache changes only in a save whose write succeeded.
\<close>

theorem C4_failed_write_leaves_cache:
  "snd (save_price_data (WriteFailed left) now dsk tr pd) = tr \<and>
   (snd (save_price_data wr now dsk tr pd) \<noteq> tr \<longrightarrow> wr = Written)"
  by (cases wr) (simp_all add: save_price_data_def Let_def split: option.splits)

text \<open>
  On an empty store a failed write leaves the cache empty, a successful one changes it.
\<close>

theorem C4_failed_write_leaves_cache_witness:
  "snd (save_price_data (WriteFailed None) 10 Map.empty \<lparr>price_history = Map.empty\<rparr>
          (obs 10 (Some 4) None 2)) = \<lparr>price_history = Map.empty\<rparr> \<and>
   snd (save_price_data Written 10 Map.empty \<lparr>price_history = Map.empty\<rparr>
          (obs 10 (Some 4) None 2)) \<noteq> \<lparr>price_history = Map.empty\<rparr>"
proof -
  have "snd (save_price_data Written 10 Map.empty \<lparr>price_history = Map.empty\<rparr>
          (obs 10 (Some 4) None 2)) \<noteq> \<lparr>price_history = Map.empty\<rparr>"
    by (simp add: save_price_data_def read_data_def new_entry_def obs_def days_def Let_def
        fun_eq_iff)
  then show ?thesis
    using C4_failed_write_leaves_cache [of None 10 Map.empty "\<lparr>price_history = Map.empty\<rparr>"
        "obs 10 (Some 4) None 2" Written]
    by simp
qed

text \<open>
  After a save whose write failed on an empty store, the latest observation of the item
  is still undefined, not the observation just saved.
\<close>

theorem C4_failed_write_hides_observation_counterexample:
  "fst (get_latest_price
          (fst (save_price_data (WriteFailed None) 10 Map.empty \<lparr>price_history = Map.empty\<rparr>
                  (obs 10 (Some 4) None 2)))
          (snd (save_price_data (WriteFailed None) 10 Map.empty \<lparr>price_history = Map.empty\<rparr>
                  (obs 10 (Some 4) None 2)))
          sample_card) = None"
  by (simp add: save_price_data_def read_data_def new_entry_def obs_def days_def Let_def
      get_latest_price_def load_history_def sample_card_identifier)

lemma parse_entry_timestamp:
  "parse_entry entry = Some pd \<Longrightarrow> j_timestamp entry = Some (timestamp pd)"
  by (auto simp: parse_entry_def split: option.splits)

lemma the_timestamp_parsed:
  "parse_entry entry = Some pd \<Longrightarrow> the (j_timestamp entry) = timestamp pd"
  by (simp add: parse_entry_timestamp)

lemma filter_parsed:
  assumes "\<forall>entry\<in>set data. parse_entry entry \<noteq> None"
  shows "map (the \<circ> parse_entry) (filter (\<lambda>entry. the (j_timestamp entry) > cutoff) data)
           = filter (\<lambda>pd. timestamp pd > cutoff) (map (the \<circ> parse_entry) data)"
  using assms
  by (induction data) (auto simp: the_timestamp_parsed)

text \<open>
  Claim C9. Let the persisted log of an item be readable and hold well-formed records
  \<open>old\<close>, and let an observation of that item be saved at time \<open>T\<close> with a successful
  write. Then the log holds exactly the records, old and new, whose timestamp is strictly
  greater than \<open>T\<close> minus 90 days; a load that follows yields exactly these, newest first;
  and the in-memory cache is the new observation in front of the untrimmed former cache.
\<close>

theorem C9_retention_on_save:
  assumes "read_data dsk (card_id pd) = Some old"
    and "\<forall>entry\<in>set old. parse_entry entry \<noteq> None"
    and "get_identifier crd = card_id pd"
  shows "fst (save_price_data Written T dsk tr pd) (card_id pd) =
           Some (Entries (filter (\<lambda>entry. the (j_timestamp entry) > T - days 90)
                            (old @ [new_entry pd]))) \<and>
         fst (load_history (fst (save_price_data Written T dsk tr pd)) tr2 crd) =
           sort_newest_first
             (filter (\<lambda>p. timestamp p > T - days 90) (map (the \<circ> parse_entry) old @ [pd])) \<and>
         set (fst (load_history (fst (save_price_data Written T dsk tr pd)) tr2 crd)) =
           {p \<in> set (map (the \<circ> parse_entry) old) \<union> {pd}. timestamp p > T - days 90} \<and>
         price_history (snd (save_price_data Written T dsk tr pd)) (card_id pd) =
           Some (pd # (case price_history tr (card_id pd) of None \<Rightarrow> [] | Some h \<Rightarrow> h))"
proof -
  let ?data1 = "old @ [new_entry pd]"
  let ?kept = "filter (\<lambda>entry. the (j_timestamp entry) > T - days 90) ?data1"
  have wf: "\<forall>entry\<in>set ?data1. parse_entry entry \<noteq> None"
    using assms(2) by (simp add: parse_entry_new_entry)
  then have ts: "\<forall>entry\<in>set ?data1. j_timestamp entry \<noteq> None"
    by (auto dest: parse_entry_timestamp)
  have ret: "retain (T - days 90) ?data1 = Some ?kept"
    using ts by (rule retain_well_formed)
  have save: "save_price_data Written T dsk tr pd =
      (dsk(card_id pd \<mapsto> Entries ?kept),
       tr\<lparr>price_history := (price_history tr)
          (card_id pd \<mapsto> pd # (case price_history tr (card_id pd) of None \<Rightarrow> [] | Some h \<Rightarrow> h))\<rparr>)"
    using assms(1) ret by (simp add: save_price_data_def Let_def)
  have wfk: "\<forall>entry\<in>set ?kept. parse_entry entry \<noteq> None"
    using wf by auto
  have parsed: "map (the \<circ> parse_entry) ?kept =
      filter (\<lambda>p. timestamp p > T - days 90) (map (the \<circ> parse_entry) old @ [pd])"
    using filter_parsed [OF wf, of "T - days 90"] by (simp add: parse_entry_new_entry)
  have load: "fst (load_history (dsk(card_id pd \<mapsto> Entries ?kept)) tr2 crd) =
      sort_newest_first (map (the \<circ> parse_entry) ?kept)"
    using assms(3) parse_all_well_formed [OF wfk] by (simp add: load_history_def Let_def)
  show ?thesis
    unfolding save fst_conv snd_conv load parsed
    by (auto simp: sort_newest_first_def)
qed

text \<open>
  A save at day 100 over records of day 5 and day 50: the record of day 5 is trimmed.
\<close>

theorem C9_retention_on_save_witness:
  "fst (load_history
          (fst (save_price_data Written (days 100)
                  [''A_B_C_E'' \<mapsto> Entries [new_entry (obs (days 5) (Some 9) None 1),
                                             new_entry (obs (days 50) (Some 8) None 1)]]
                  \<lparr>price_history = Map.empty\<rparr> (obs (days 100) (Some 7) None 1)))
          \<lparr>price_history = Map.empty\<rparr> sample_card)
   = [obs (days 100) (Some 7) None 1, obs (days 50) (Some 8) None 1]"
  using C9_retention_on_save
    [of "[''A_B_C_E'' \<mapsto> Entries [new_entry (obs (days 5) (Some 9) None 1),
                                    new_entry (obs (days 50) (Some 8) None 1)]]"
        "obs (days 100) (Some 7) None 1"
        "[new_entry (obs (days 5) (Some 9) None 1), new_entry (obs (days 50) (Some 8) None 1)]"
        sample_card "days 100" "\<lparr>price_history = Map.empty\<rparr>" "\<lparr>price_history = Map.empty\<rparr>"]
  by (simp add: read_data_def parse_entry_new_entry sample_card_identifier obs_def days_def
      sort_newest_first_def)

subsection \<open>Nearest observation\<close>

lemma min_key_first_min:
  "first_min k pre i \<Longrightarrow>
     \<exists>i'. first_min k (pre @ xs) i' \<and> min_key k (pre ! i) xs = (pre @ xs) ! i'"
proof (induction xs arbitrary: pre i)
  case Nil
  then show ?case by auto
next
  case (Cons x xs)
  show ?case
  proof (cases "k x < k (pre ! i)")
    case True
    have "first_min k (pre @ [x]) (length pre)"
      using Cons.prems True
      by (auto simp: first_min_def nth_append less_Suc_eq intro: order.strict_trans2 less_imp_le)
    from Cons.IH [OF this] True show ?thesis by (simp add: nth_append)
  next
    case False
    have "first_min k (pre @ [x]) i"
      using Cons.prems False
      by (auto simp: first_min_def nth_append less_Suc_eq)
    from Cons.IH [OF this] False Cons.prems show ?thesis
      by (simp add: nth_append first_min_def)
  qed
qed

text \<open>
  Claim C7. For an item whose cached history is non-empty and every target time
  (\<open>now\<close> minus a number of hours), \<^verbatim>\<open>get_price_at_timeframe\<close> returns the observation
  whose absolute time distance to the target is minimal, and among several at that
  distance the first in cache order; the tracker is unchanged. With samples 1, 5 and 10
  hours before \<open>now\<close> and a target 6 hours ago, it returns the sample 5 hours before.
\<close>

theorem C7_nearest_observation:
  assumes "price_history tr (get_identifier crd) = Some hist" and "hist \<noteq> []"
  shows "(\<exists>i. first_min (\<lambda>x. \<bar>timestamp x - (now - hours h)\<bar>) hist i \<and>
              get_price_at_timeframe now dsk tr crd h = (Some (hist ! i), tr)) \<and>
         (hist = [p1, p2, p3] \<and> timestamp p1 = now - hours 1 \<and> timestamp p2 = now - hours 5 \<and>
          timestamp p3 = now - hours 10 \<and> h = 6 \<longrightarrow>
            fst (get_price_at_timeframe now dsk tr crd h) = Some p2)"
proof -
  from assms(2) obtain x xs where hist: "hist = x # xs" by (cases hist) auto
  let ?k = "\<lambda>x. \<bar>timestamp x - (now - hours h)\<bar>"
  have "first_min ?k [x] 0" by (simp add: first_min_def)
  from min_key_first_min [OF this, of xs]
  obtain i where i: "first_min ?k (x # xs) i" "min_key ?k x xs = (x # xs) ! i" by auto
  have res: "get_price_at_timeframe now dsk tr crd h = (Some (min_key ?k x xs), tr)"
    using assms(1) hist by (simp add: get_price_at_timeframe_def Let_def)
  have general: "\<exists>i. first_min ?k hist i \<and>
      get_price_at_timeframe now dsk tr crd h = (Some (hist ! i), tr)"
    using i res hist by auto
  have example: "hist = [p1, p2, p3] \<and> timestamp p1 = now - hours 1 \<and>
      timestamp p2 = now - hours 5 \<and> timestamp p3 = now - hours 10 \<and> h = 6 \<longrightarrow>
      fst (get_price_at_timeframe now dsk tr crd h) = Some p2"
    using assms(1) by (auto simp: get_price_at_timeframe_def Let_def hours_def)
  from general example show ?thesis by blast
qed

text \<open>
  The three-sample history of the claim at \<open>now\<close> = hour 100.
\<close>

theorem C7_nearest_observation_witness:
  "fst (get_price_at_timeframe (hours 100) Map.empty
          (price_tracker (fresh_system [obs (hours 99) (Some 3) None 1,
                                        obs (hours 95) (Some 4) None 1,
                                        obs (hours 90) (Some 5) None 1] default_thresholds))
          sample_card 6) = Some (obs (hours 95) (Some 4) None 1)"
  using C7_nearest_observation
    [where tr = "price_tracker (fresh_system [obs (hours 99) (Some 3) None 1,
                                              obs (hours 95) (Some 4) None 1,
                                              obs (hours 90) (Some 5) None 1] default_thresholds)"
       and crd = sample_card
       and hist = "[obs (hours 99) (Some 3) None 1, obs (hours 95) (Some 4) None 1,
                    obs (hours 90) (Some 5) None 1]"
       and ?p1.0 = "obs (hours 99) (Some 3) None 1" and ?p2.0 = "obs (hours 95) (Some 4) None 1"
       and ?p3.0 = "obs (hours 90) (Some 5) None 1" and now = "hours 100" and h = 6
       and dsk = Map.empty]
  by (simp add: fresh_system_def sample_card_identifier obs_def hours_def)

section \<open>Properties of the alert evaluation\<close>

subsection \<open>Hydration of the cache is idempotent\<close>

lemma hydrate_idem: "hydrate dsk (hydrate dsk tr crd) crd = hydrate dsk tr crd"
  using load_history_cases [of dsk tr crd]
  by (auto simp: hydrate_def)

lemma snd_get_price_at_timeframe:
  "snd (get_price_at_timeframe now dsk tr crd h) = hydrate dsk tr crd"
  by (auto simp: get_price_at_timeframe_def hydrate_def Let_def split: option.splits list.splits)

lemma fst_get_price_at_timeframe_hydrate:
  "fst (get_price_at_timeframe now dsk (hydrate dsk tr crd) crd h) =
   fst (get_price_at_timeframe now dsk tr crd h)"
  using load_history_cases [of dsk tr crd]
  by (auto simp: get_price_at_timeframe_def hydrate_def Let_def split: option.splits list.splits)

lemma snd_get_30_day_low:
  "snd (get_30_day_low now dsk tr crd) = hydrate dsk tr crd"
  by (auto simp: get_30_day_low_def hydrate_def Let_def split: option.splits list.splits)

lemma fst_get_30_day_low_hydrate:
  "fst (get_30_day_low now dsk (hydrate dsk tr crd) crd) = fst (get_30_day_low now dsk tr crd)"
  using load_history_cases [of dsk tr crd]
  by (auto simp: get_30_day_low_def hydrate_def Let_def split: option.splits list.splits)

lemma snd_is_price_spike_hydrated:
  "snd (is_price_spike now dsk th (hydrate dsk tr crd) crd cur) = hydrate dsk tr crd"
  by (auto simp: is_price_spike_def Let_def split_beta snd_get_price_at_timeframe hydrate_idem
      split: option.splits)

lemma fst_is_price_spike_hydrate:
  "fst (is_price_spike now dsk th (hydrate dsk tr crd) crd cur) =
   fst (is_price_spike now dsk th tr crd cur)"
  by (auto simp: is_price_spike_def Let_def split_beta fst_get_price_at_timeframe_hydrate
      split: option.splits)

lemma fst_get_latest_price_hydrate:
  "fst (get_latest_price dsk (hydrate dsk tr crd) crd) = fst (get_latest_price dsk tr crd)"
proof (cases "price_history tr (get_identifier crd)")
  case (Some a)
  then show ?thesis by (simp add: hydrate_def)
next
  case None
  from load_history_cases [of dsk tr crd] show ?thesis
  proof
    assume "load_history dsk tr crd = ([], tr)"
    with None show ?thesis by (simp add: hydrate_def)
  next
    assume "\<exists>h. load_history dsk tr crd =
      (h, tr\<lparr>price_history := (price_history tr)(get_identifier crd \<mapsto> h)\<rparr>)"
    then obtain h where h: "load_history dsk tr crd =
      (h, tr\<lparr>price_history := (price_history tr)(get_identifier crd \<mapsto> h)\<rparr>)" by blast
    have f: "fst (load_history dsk
      (tr\<lparr>price_history := (price_history tr)(get_identifier crd \<mapsto> h)\<rparr>) crd) = h"
      using load_history_fst_indep [of dsk _ crd tr] h by simp
    show ?thesis using None h f
      by (cases h) (simp_all add: hydrate_def get_latest_price_def split_beta)
  qed
qed

subsection \<open>The shape of one evaluation\<close>

lemma is_price_spike_iff:
  "fst (is_price_spike now dsk th tr crd cur) \<longleftrightarrow>
     (\<exists>pnow past ppast. get_effective_price cur = Some pnow \<and> pnow \<noteq> 0 \<and>
        fst (get_price_at_timeframe now dsk tr crd (spike_ignore_hours th)) = Some past \<and>
        get_effective_price past = Some ppast \<and> ppast \<noteq> 0 \<and>
        ((pnow - ppast) / ppast) * 100 \<ge> spike_ignore_percent th)"
  by (auto simp: is_price_spike_def Let_def split_beta truthy_def split: option.splits)

lemma evaluate_rules_unfold:
  assumes "get_effective_price cur = Some current"
  shows "evaluate_rules clk dsk st crd cur =
     (if fst (is_price_spike (now_spike clk) dsk (thresholds st) (price_tracker st) crd cur)
      then (None, st\<lparr>price_tracker := hydrate dsk (price_tracker st) crd\<rparr>)
      else if check_reasons (thresholds st) crd cur current
                (fst (get_price_at_timeframe (now_drop clk) dsk (price_tracker st) crd
                        (drop_timeframe_hours (thresholds st))))
                (fst (get_30_day_low (now_low clk) dsk (price_tracker st) crd)) \<noteq> []
      then (Some \<lparr>alert_card = crd, current_price = cur,
                  previous_price =
                    (if fst (get_latest_price dsk (price_tracker st) crd) \<noteq> Some cur
                     then fst (get_latest_price dsk (price_tracker st) crd) else None),
                  alert_reasons = check_reasons (thresholds st) crd cur current
                    (fst (get_price_at_timeframe (now_drop clk) dsk (price_tracker st) crd
                            (drop_timeframe_hours (thresholds st))))
                    (fst (get_30_day_low (now_low clk) dsk (price_tracker st) crd)),
                  alert_timestamp = now_alert clk\<rparr>,
            st\<lparr>price_tracker :=
                  snd (get_latest_price dsk (hydrate dsk (price_tracker st) crd) crd),
               last_alert_times :=
                  (last_alert_times st)(get_identifier crd \<mapsto> now_stamp clk)\<rparr>)
      else (None, st\<lparr>price_tracker := hydrate dsk (price_tracker st) crd\<rparr>))"
  using assms
  by (simp add: evaluate_rules_def check_reasons_def Let_def split_beta
      snd_get_price_at_timeframe snd_get_30_day_low hydrate_idem fst_is_price_spike_hydrate
      snd_is_price_spike_hydrated fst_get_30_day_low_hydrate fst_get_latest_price_hydrate
      del: append_is_Nil_conv append_eq_append_conv cong: if_cong)


lemma check_reasons_low:
  "ThirtyDayLow a b \<in> set (check_reasons th crd cur current past low) \<longleftrightarrow>
     (\<exists>l. low = Some l \<and> l \<noteq> 0 \<and> current \<le> l \<and> a = current \<and> b = l)"
  by (auto simp: check_reasons_def truthy_def Let_def split: option.splits)

lemma evaluate_rules_spike:
  assumes "fst (is_price_spike (now_spike clk) dsk (thresholds st) (price_tracker st) crd cur)"
  shows "evaluate_rules clk dsk st crd cur =
           (None, st\<lparr>price_tracker := hydrate dsk (price_tracker st) crd\<rparr>)"
proof -
  from assms obtain current where "get_effective_price cur = Some current"
    by (auto simp: is_price_spike_iff)
  from evaluate_rules_unfold [OF this] assms show ?thesis by simp
qed

lemma evaluate_rules_alert:
  assumes "evaluate_rules clk dsk st crd cur = (Some alert, st')"
  shows "\<exists>current. get_effective_price cur = Some current \<and>
     \<not> fst (is_price_spike (now_spike clk) dsk (thresholds st) (price_tracker st) crd cur) \<and>
     alert_reasons alert = check_reasons (thresholds st) crd cur current
        (fst (get_price_at_timeframe (now_drop clk) dsk (price_tracker st) crd
                (drop_timeframe_hours (thresholds st))))
        (fst (get_30_day_low (now_low clk) dsk (price_tracker st) crd)) \<and>
     alert_reasons alert \<noteq> [] \<and>
     previous_price alert =
       (if fst (get_latest_price dsk (price_tracker st) crd) \<noteq> Some cur
        then fst (get_latest_price dsk (price_tracker st) crd) else None) \<and>
     last_alert_times st' = (last_alert_times st)(get_identifier crd \<mapsto> now_stamp clk)"
proof (cases "get_effective_price cur")
  case None
  with assms show ?thesis by (simp add: evaluate_rules_def)
next
  case (Some current)
  from assms show ?thesis
    unfolding evaluate_rules_unfold [OF Some]
    by (intro exI [of _ current]) (auto simp: Some split: if_splits)
qed

lemma check_alert_conditions_alert:
  assumes "check_alert_conditions clk dsk st crd cur cooldown_hours = (Some alert, st')"
  shows "\<not> cooldown_active st crd (now_cooldown clk) cooldown_hours \<and>
         evaluate_rules clk dsk st crd cur = (Some alert, st')"
  using assms by (auto simp: check_alert_conditions_def split: if_splits)

subsection \<open>Spike suppression\<close>

text \<open>
  Claim C1, as the code has it. Let the current observation have a non-zero effective
  price \<open>pnow\<close>, and let the observation nearest to the spike-window time (the clock
  reading of \<^verbatim>\<open>_is_price_spike\<close> minus \<^verbatim>\<open>spike_ignore_hours\<close>) have a positive effective
  price \<open>ppast\<close> with \<open>(pnow - ppast) / ppast * 100\<close> at or above
  \<^verbatim>\<open>spike_ignore_percent\<close>. Then \<^verbatim>\<open>check_alert_conditions\<close> returns no alert, whatever
  rules fired, and the cooldown timestamps are unchanged. (A current price of zero is
  never a spike: \<^verbatim>\<open>_is_price_spike\<close> returns early on it.)
\<close>

theorem C1_spike_suppresses_alert:
  assumes "get_effective_price cur = Some pnow" and "pnow \<noteq> 0"
    and "fst (get_price_at_timeframe (now_spike clk) dsk (price_tracker st) crd
               (spike_ignore_hours (thresholds st))) = Some past"
    and "get_effective_price past = Some ppast" and "ppast > 0"
    and "((pnow - ppast) / ppast) * 100 \<ge> spike_ignore_percent (thresholds st)"
  shows "fst (check_alert_conditions clk dsk st crd cur cooldown_hours) = None \<and>
         last_alert_times (snd (check_alert_conditions clk dsk st crd cur cooldown_hours))
           = last_alert_times st"
proof -
  have "fst (is_price_spike (now_spike clk) dsk (thresholds st) (price_tracker st) crd cur)"
    using assms by (simp add: is_price_spike_iff)
  then show ?thesis
    by (simp add: check_alert_conditions_def evaluate_rules_spike)
qed

subsection \<open>Cooldown\<close>

text \<open>
  Claim C2. Let a call have produced an alert for an item; the cooldown timestamp it
  records for the item is \<open>t0\<close>, its last clock reading. In every state that holds this
  timestamp for the item, a call with cooldown duration \<open>d\<close> hours whose clock reads a
  time in \<open>[t0, t0 + d)\<close> returns no alert and leaves the whole state unchanged; a call
  whose clock reads \<open>t0 + d\<close> is not stopped by the cooldown test and is the evaluation of
  the rules.
\<close>

theorem C2_cooldown_window:
  assumes "check_alert_conditions clk dsk st crd cur h0 = (Some alert, st')"
    and "last_alert_times st2 (get_identifier crd) = last_alert_times st' (get_identifier crd)"
  shows "last_alert_times st' (get_identifier crd) = Some (now_stamp clk) \<and>
     (now_stamp clk \<le> now_cooldown clk2 \<and> now_cooldown clk2 < now_stamp clk + hours d \<longrightarrow>
        check_alert_conditions clk2 dsk2 st2 crd cur2 d = (None, st2)) \<and>
     (now_cooldown clk2 = now_stamp clk + hours d \<longrightarrow>
        \<not> cooldown_active st2 crd (now_cooldown clk2) d \<and>
        check_alert_conditions clk2 dsk2 st2 crd cur2 d = evaluate_rules clk2 dsk2 st2 crd cur2)"
proof -
  have "evaluate_rules clk dsk st crd cur = (Some alert, st')"
    using check_alert_conditions_alert [OF assms(1)] by simp
  from evaluate_rules_alert [OF this]
  have stamp: "last_alert_times st' (get_identifier crd) = Some (now_stamp clk)" by auto
  with assms(2) have "last_alert_times st2 (get_identifier crd) = Some (now_stamp clk)" by simp
  then have active: "cooldown_active st2 crd t d \<longleftrightarrow> t - now_stamp clk < hours d" for t
    by (simp add: cooldown_active_def)
  show ?thesis
    using stamp by (auto simp: check_alert_conditions_def active)
qed

subsection \<open>The 30-day-low rule\<close>

text \<open>
  Claim C8, as the code has it. In an evaluation that is past the cooldown test, has a
  current effective price \<open>pnow\<close>, a defined 30-day low \<open>low\<close> and is not suppressed as a
  spike, an alert carrying a 30-day-low reason is produced exactly when \<open>low\<close> is not zero
  and \<open>pnow \<le> low\<close> (equality included); the reason names \<open>pnow\<close> and \<open>low\<close>. A 30-day
  low of zero never contributes the reason.
\<close>

theorem C8_thirty_day_low_rule:
  assumes "\<not> cooldown_active st crd (now_cooldown clk) cooldown_hours"
    and "get_effective_price cur = Some pnow"
    and "fst (get_30_day_low (now_low clk) dsk (price_tracker st) crd) = Some low"
    and "\<not> fst (is_price_spike (now_spike clk) dsk (thresholds st) (price_tracker st) crd cur)"
  shows "((\<exists>alert. fst (check_alert_conditions clk dsk st crd cur cooldown_hours) = Some alert \<and>
             (\<exists>a b. ThirtyDayLow a b \<in> set (alert_reasons alert)))
          \<longleftrightarrow> low \<noteq> 0 \<and> pnow \<le> low) \<and>
         (\<forall>alert a b. fst (check_alert_conditions clk dsk st crd cur cooldown_hours) = Some alert \<and>
             ThirtyDayLow a b \<in> set (alert_reasons alert) \<longrightarrow> a = pnow \<and> b = low)"
proof -
  let ?rs = "check_reasons (thresholds st) crd cur pnow
        (fst (get_price_at_timeframe (now_drop clk) dsk (price_tracker st) crd
                (drop_timeframe_hours (thresholds st)))) (Some low)"
  have low: "ThirtyDayLow a b \<in> set ?rs \<longleftrightarrow> low \<noteq> 0 \<and> pnow \<le> low \<and> a = pnow \<and> b = low"
    for a b
    by (simp add: check_reasons_low)
  have res: "fst (check_alert_conditions clk dsk st crd cur cooldown_hours) = Some alert \<longleftrightarrow>
      ?rs \<noteq> [] \<and> alert = \<lparr>alert_card = crd, current_price = cur,
                  previous_price =
                    (if fst (get_latest_price dsk (price_tracker st) crd) \<noteq> Some cur
                     then fst (get_latest_price dsk (price_tracker st) crd) else None),
                  alert_reasons = ?rs, alert_timestamp = now_alert clk\<rparr>" for alert
    using assms(1,3,4) by (auto simp: check_alert_conditions_def evaluate_rules_unfold [OF assms(2)])
  have nonempty: "ThirtyDayLow a b \<in> set ?rs \<Longrightarrow> ?rs \<noteq> []" for a b
    by auto
  show ?thesis
    unfolding res using low nonempty by auto
qed

subsection \<open>The previous observation of an alert\<close>

text \<open>
  Claim C10. Whenever \<^verbatim>\<open>check_alert_conditions\<close> returns an alert: if the current
  observation is the store's latest observation of the item, the alert's previous
  observation is undefined; and a defined previous observation is the store's latest and
  differs from the current observation.
\<close>

theorem C10_previous_observation:
  assumes "check_alert_conditions clk dsk st crd cur cooldown_hours = (Some alert, st')"
  shows "(fst (get_latest_price dsk (price_tracker st) crd) = Some cur \<longrightarrow>
            previous_price alert = None) \<and>
         (\<forall>p. previous_price alert = Some p \<longrightarrow>
            fst (get_latest_price dsk (price_tracker st) crd) = Some p \<and> p \<noteq> cur)"
proof -
  have "evaluate_rules clk dsk st crd cur = (Some alert, st')"
    using check_alert_conditions_alert [OF assms] by simp
  from evaluate_rules_alert [OF this]
  have "previous_price alert =
       (if fst (get_latest_price dsk (price_tracker st) crd) \<noteq> Some cur
        then fst (get_latest_price dsk (price_tracker st) crd) else None)" by blast
  then show ?thesis by (auto split: if_splits)
qed

lemma sample_card_target: "target_price sample_card = Some 5"
  by (simp add: sample_card_def)

lemmas eval_defs = sample_card_target
  check_alert_conditions_def cooldown_active_def evaluate_rules_def
  is_price_spike_def get_price_at_timeframe_def get_30_day_low_def get_latest_price_def
  get_effective_price_def truthy_def sample_card_identifier fresh_system_def clock_at_def
  default_thresholds_def obs_def hours_def days_def Let_def


text \<open>
  A price of 4, at the target of 5 and with low inventory, after a price of 2 six hours
  before: a rise of 100 percent, no alert, no cooldown entry.
\<close>

theorem C1_spike_suppresses_alert_witness:
  "fst (check_alert_conditions (clock_at (hours 6)) Map.empty
          (fresh_system [obs 0 (Some 2) None 0] default_thresholds) sample_card
          (obs (hours 6) (Some 4) None 3) 6) = None \<and>
   last_alert_times (snd (check_alert_conditions (clock_at (hours 6)) Map.empty
          (fresh_system [obs 0 (Some 2) None 0] default_thresholds) sample_card
          (obs (hours 6) (Some 4) None 3) 6)) = Map.empty"
proof -
  have h1: "get_effective_price (obs (hours 6) (Some 4) None 3) = Some 4"
    by (simp add: get_effective_price_def truthy_def obs_def)
  have h2: "(4::real) \<noteq> 0" by simp
  have h3: "fst (get_price_at_timeframe (now_spike (clock_at (hours 6))) Map.empty
               (price_tracker (fresh_system [obs 0 (Some 2) None 0] default_thresholds))
               sample_card
               (spike_ignore_hours (thresholds (fresh_system [obs 0 (Some 2) None 0]
                  default_thresholds)))) = Some (obs 0 (Some 2) None 0)"
    by (simp add: get_price_at_timeframe_def sample_card_identifier fresh_system_def
        clock_at_def default_thresholds_def)
  have h4: "get_effective_price (obs 0 (Some 2) None 0) = Some 2"
    by (simp add: get_effective_price_def truthy_def obs_def)
  have h5: "(2::real) > 0" by simp
  have h6: "((4 - 2) / 2) * 100 \<ge>
      spike_ignore_percent (thresholds (fresh_system [obs 0 (Some 2) None 0] default_thresholds))"
    by (simp add: fresh_system_def default_thresholds_def)
  show ?thesis
    using C1_spike_suppresses_alert [OF h1 h2 h3 h4 h5 h6, of 6]
    by (simp add: fresh_system_def)
qed

text \<open>
  With a spike threshold of -100 percent, a current price of 0 after a price of 10 meets
  the condition of the claim (the change is exactly -100 percent), yet an alert is
  returned and the cooldown timestamp is set.
\<close>

theorem C1_zero_price_not_suppressed_counterexample:
  "get_effective_price (obs (hours 6) None (Some 0) 0) = Some 0 \<and>
   fst (get_price_at_timeframe (hours 6) Map.empty
          (price_tracker (fresh_system [obs 0 (Some 10) None 0]
             (default_thresholds\<lparr>spike_ignore_percent := - 100\<rparr>)))
          sample_card 6) = Some (obs 0 (Some 10) None 0) \<and>
   get_effective_price (obs 0 (Some 10) None 0) = Some 10 \<and>
   ((0 - 10) / 10) * 100 \<ge> (- 100 :: real) \<and>
   map_option alert_reasons
     (fst (check_alert_conditions (clock_at (hours 6)) Map.empty
          (fresh_system [obs 0 (Some 10) None 0]
             (default_thresholds\<lparr>spike_ignore_percent := - 100\<rparr>))
          sample_card (obs (hours 6) None (Some 0) 0) 6))
     = Some [TargetReached 0 5, PriceDropped 100 10 0 24, ThirtyDayLow 0 10] \<and>
   last_alert_times
     (snd (check_alert_conditions (clock_at (hours 6)) Map.empty
          (fresh_system [obs 0 (Some 10) None 0]
             (default_thresholds\<lparr>spike_ignore_percent := - 100\<rparr>))
          sample_card (obs (hours 6) None (Some 0) 0) 6)) ''A_B_C_E'' = Some (hours 6)"
  by (simp add: eval_defs)


subsection \<open>Cooldown, evaluated\<close>

lemma first_alert:
  "check_alert_conditions (clock_at (hours 6)) Map.empty (fresh_system [] default_thresholds)
     sample_card (obs (hours 6) (Some 4) None 0) 6
   = (Some \<lparr>alert_card = sample_card, current_price = obs (hours 6) (Some 4) None 0,
            previous_price = None, alert_reasons = [TargetReached 4 5],
            alert_timestamp = hours 6\<rparr>,
      (fresh_system [] default_thresholds)\<lparr>last_alert_times := [''A_B_C_E'' \<mapsto> hours 6]\<rparr>)"
  by (simp add: eval_defs load_history_def)

text \<open>
  An alert at hour 6 with a cooldown of 6 hours: the call at hour 8 is blocked and changes
  nothing, the call at hour 12 alerts again.
\<close>

theorem C2_cooldown_window_witness:
  "check_alert_conditions (clock_at (hours 8)) Map.empty
     ((fresh_system [] default_thresholds)\<lparr>last_alert_times := [''A_B_C_E'' \<mapsto> hours 6]\<rparr>)
     sample_card (obs (hours 8) (Some 4) None 0) 6
   = (None, (fresh_system [] default_thresholds)\<lparr>last_alert_times := [''A_B_C_E'' \<mapsto> hours 6]\<rparr>) \<and>
   fst (check_alert_conditions (clock_at (hours 12)) Map.empty
     ((fresh_system [] default_thresholds)\<lparr>last_alert_times := [''A_B_C_E'' \<mapsto> hours 6]\<rparr>)
     sample_card (obs (hours 12) (Some 4) None 0) 6) \<noteq> None"
proof -
  let ?st1 = "(fresh_system [] default_thresholds)\<lparr>last_alert_times := [''A_B_C_E'' \<mapsto> hours 6]\<rparr>"
  have same: "last_alert_times ?st1 (get_identifier sample_card) =
              last_alert_times ?st1 (get_identifier sample_card)" by simp
  note w = C2_cooldown_window [OF first_alert same, where d = 6 and ?dsk2.0 = Map.empty]
  have blocked: "check_alert_conditions (clock_at (hours 8)) Map.empty ?st1 sample_card
      (obs (hours 8) (Some 4) None 0) 6 = (None, ?st1)"
    using w [where ?clk2.0 = "clock_at (hours 8)" and ?cur2.0 = "obs (hours 8) (Some 4) None 0"]
    by (simp add: clock_at_def hours_def)
  have "check_alert_conditions (clock_at (hours 12)) Map.empty ?st1 sample_card
      (obs (hours 12) (Some 4) None 0) 6 =
      evaluate_rules (clock_at (hours 12)) Map.empty ?st1 sample_card
      (obs (hours 12) (Some 4) None 0)"
    using w [where ?clk2.0 = "clock_at (hours 12)" and ?cur2.0 = "obs (hours 12) (Some 4) None 0"]
    by (simp add: clock_at_def hours_def)
  moreover have "fst (evaluate_rules (clock_at (hours 12)) Map.empty ?st1 sample_card
      (obs (hours 12) (Some 4) None 0)) \<noteq> None"
    by (simp add: eval_defs load_history_def)
  ultimately show ?thesis using blocked by simp
qed

text \<open>
  The scenario of effective prices 52, 48, 55, 48 in the last 30 days and a current
  price of 48, which ties the low.
\<close>

theorem C8_thirty_day_low_rule_witness:
  "\<exists>alert. fst (check_alert_conditions (clock_at (hours 100)) Map.empty
       (fresh_system [obs (hours 90) (Some 48) None 0, obs (hours 80) (Some 55) None 0,
                      obs (hours 70) (Some 48) None 0, obs (hours 60) (Some 52) None 0]
          default_thresholds)
       sample_card (obs (hours 100) (Some 48) None 0) 6) = Some alert \<and>
     (\<exists>a b. ThirtyDayLow a b \<in> set (alert_reasons alert))"
proof -
  let ?st = "fresh_system [obs (hours 90) (Some 48) None 0, obs (hours 80) (Some 55) None 0,
                      obs (hours 70) (Some 48) None 0, obs (hours 60) (Some 52) None 0]
          default_thresholds"
  let ?cur = "obs (hours 100) (Some 48) None 0"
  have h1: "\<not> cooldown_active ?st sample_card (now_cooldown (clock_at (hours 100))) 6"
    by (simp add: cooldown_active_def fresh_system_def)
  have h2: "get_effective_price ?cur = Some 48"
    by (simp add: get_effective_price_def truthy_def obs_def)
  have h3: "fst (get_30_day_low (now_low (clock_at (hours 100))) Map.empty (price_tracker ?st)
                   sample_card) = Some 48"
    by (simp add: eval_defs)
  have h4: "\<not> fst (is_price_spike (now_spike (clock_at (hours 100))) Map.empty (thresholds ?st)
                     (price_tracker ?st) sample_card ?cur)"
    by (simp add: eval_defs)
  from C8_thirty_day_low_rule [OF h1 h2 h3 h4] show ?thesis by simp
qed

text \<open>
  With a 30-day low of 0 and a current price of 0, the alert produced carries the target
  reason only, although the current price is at the low.
\<close>

theorem C8_zero_low_no_reason_counterexample:
  "fst (get_30_day_low (hours 6) Map.empty
          (price_tracker (fresh_system [obs (hours 5) None (Some 0) 0] default_thresholds))
          sample_card) = Some 0 \<and>
   get_effective_price (obs (hours 6) None (Some 0) 0) = Some 0 \<and>
   (0::real) \<le> 0 \<and>
   map_option alert_reasons
     (fst (check_alert_conditions (clock_at (hours 6)) Map.empty
             (fresh_system [obs (hours 5) None (Some 0) 0] default_thresholds)
             sample_card (obs (hours 6) None (Some 0) 0) 6))
     = Some [TargetReached 0 5]"
  by (simp add: eval_defs)

text \<open>
  An alert for the observation at the head of the cache, and an alert for an observation
  newer than the cached one.
\<close>

theorem C10_previous_observation_witness:
  "previous_price (the (fst (check_alert_conditions (clock_at (hours 6)) Map.empty
       (fresh_system [obs (hours 6) (Some 4) None 0] default_thresholds)
       sample_card (obs (hours 6) (Some 4) None 0) 6))) = None \<and>
   fst (get_latest_price Map.empty
          (price_tracker (fresh_system [obs 0 (Some 4) None 0] default_thresholds)) sample_card)
     = Some (obs 0 (Some 4) None 0) \<and>
   obs 0 (Some 4) None 0 \<noteq> obs (hours 6) (Some 4) None 0"
proof -
  let ?cur = "obs (hours 6) (Some 4) None 0"
  let ?stA = "fresh_system [?cur] default_thresholds"
  let ?stB = "fresh_system [obs 0 (Some 4) None 0] default_thresholds"
  obtain alertA stA' where a: "check_alert_conditions (clock_at (hours 6)) Map.empty ?stA
       sample_card ?cur 6 = (Some alertA, stA')"
    by (simp add: eval_defs)
  have la: "fst (get_latest_price Map.empty (price_tracker ?stA) sample_card) = Some ?cur"
    by (simp add: get_latest_price_def fresh_system_def sample_card_identifier)
  have A: "previous_price alertA = None"
    using C10_previous_observation [OF a] la by simp
  obtain alertB stB' where b: "check_alert_conditions (clock_at (hours 6)) Map.empty ?stB
       sample_card ?cur 6 = (Some alertB, stB')"
      and pb: "previous_price alertB = Some (obs 0 (Some 4) None 0)"
    by (simp add: eval_defs)
  have B: "fst (get_latest_price Map.empty (price_tracker ?stB) sample_card) =
             Some (obs 0 (Some 4) None 0) \<and> obs 0 (Some 4) None 0 \<noteq> ?cur"
    using C10_previous_observation [OF b] pb by simp
  show ?thesis using A B a by simp
qed

end
